theory Spec2Isabelle
  imports Main
begin

section \<open>Python values and errors\<close>

text \<open>
  The retriever of \<^verbatim>\<open>haystack/preview/components/retrievers/memory.py\<close> is dynamically
  typed: its parameters and the serialised record are \<^verbatim>\<open>Dict[str, Any]\<close> values. The values
  that can occur are modelled by \<open>pyval\<close>: \<^verbatim>\<open>None\<close>, booleans, (unbounded) integers,
  strings, lists and dictionaries with string keys; floating-point numbers are left out. A
  dictionary is an association list, read with \<open>map_of\<close>.
\<close>

datatype pyval =
    PNone
  | PBool bool
  | PInt int
  | PStr string
  | PList "pyval list"
  | PDict "(string \<times> pyval) list"

text \<open>
  The exceptions the component can raise. \<open>ValueError\<close> and \<open>TypeError\<close> carry the
  rendered message, \<open>KeyError\<close> the missing key. The message of a
  \<^verbatim>\<open>ComponentDeserializationError\<close> is given by its template and the values the f-string
  interpolates: \<open>MissingType\<close> is \<^verbatim>\<open>"Missing 'type' in component serialization data"\<close>,
  and \<open>CannotDeserialize t c\<close> is
  \<^verbatim>\<open>f"Component '{t}' can't be deserialized as '{c}'"\<close>. \<open>StoreError\<close> carries whatever
  the store (an external collaborator) raises; the component propagates it unchanged.
\<close>

datatype cde_message =
    MissingType
  | CannotDeserialize pyval string

datatype 'e error =
    ValueError string
  | ComponentDeserializationError cde_message
  | KeyError pyval
  | TypeError string
  | StoreError 'e

text \<open>Python's \<^verbatim>\<open>type(v).__name__\<close>, used in the interpreter's own messages.\<close>

fun type_name :: "pyval \<Rightarrow> string" where
  "type_name PNone = ''NoneType''"
| "type_name (PBool _) = ''bool''"
| "type_name (PInt _) = ''int''"
| "type_name (PStr _) = ''str''"
| "type_name (PList _) = ''list''"
| "type_name (PDict _) = ''dict''"

text \<open>Python truthiness of a value (\<^verbatim>\<open>if v:\<close>).\<close>

fun truthy :: "pyval \<Rightarrow> bool" where
  "truthy PNone = False"
| "truthy (PBool b) = b"
| "truthy (PInt i) = (i \<noteq> 0)"
| "truthy (PStr s) = (s \<noteq> [])"
| "truthy (PList xs) = (xs \<noteq> [])"
| "truthy (PDict kv) = (kv \<noteq> [])"

subsection \<open>Decimal rendering of integers\<close>

text \<open>
  \<^verbatim>\<open>f"{top_k}"\<close> renders an integer in decimal, with a leading minus sign for negative
  numbers. \<open>read_int\<close> reads such a rendering back; it is used only to state that the
  rendering determines the number.
\<close>

definition digit_char :: "nat \<Rightarrow> char" where
  "digit_char d = ''0123456789'' ! d"

fun str_nat :: "nat \<Rightarrow> string" where
  "str_nat n = (if n < 10 then [digit_char n] else str_nat (n div 10) @ [digit_char (n mod 10)])"

declare str_nat.simps [simp del]

definition str_int :: "int \<Rightarrow> string" where
  "str_int i = (if i < 0 then CHR ''-'' # str_nat (nat (- i)) else str_nat (nat i))"

definition digit_val :: "char \<Rightarrow> nat" where
  "digit_val c = of_char c - 48"

definition read_nat :: "string \<Rightarrow> nat" where
  "read_nat s = foldl (\<lambda>acc c. 10 * acc + digit_val c) 0 s"

definition read_int :: "string \<Rightarrow> int" where
  "read_int s = (case s of
       [] \<Rightarrow> 0
     | c # cs \<Rightarrow> if c = CHR ''-'' then - int (read_nat cs) else int (read_nat s))"

section \<open>The retriever\<close>

text \<open>
  The instance attributes of \<^verbatim>\<open>MemoryRetriever\<close>. \<open>filters\<close>, \<open>top_k\<close> and
  \<open>scale_score\<close> are set by the constructor. \<open>store\<close> and \<open>store_name\<close> are the
  attributes \<^verbatim>\<open>_store\<close> and \<^verbatim>\<open>_store_name\<close> inherited from \<^verbatim>\<open>StoreAwareMixin\<close>.
\<close>

text \<open>
  Modelled from the spec: \<^verbatim>\<open>StoreAwareMixin\<close> (module \<^verbatim>\<open>haystack.preview.document_stores\<close>)
  is not among the sources. Following the specification, the retriever holds at most one store
  reference, unset at construction, or a deferred store name; both are optional here, and the
  property \<^verbatim>\<open>self.store\<close> reads \<^verbatim>\<open>_store\<close>. A store object is truthy (it is an ordinary
  object); a store name is truthy when it is a non-empty string.
\<close>

record 'store MemoryRetriever =
  filters :: pyval
  top_k :: pyval
  scale_score :: pyval
  store :: "'store option"
  store_name :: "string option"

definition cls_name :: string where
  "cls_name = ''MemoryRetriever''"

text \<open>
  \<^verbatim>\<open>__init__(self, filters=None, top_k=10, scale_score=True)\<close>. An argument that the
  caller does not give is \<open>None\<close> here and takes the default of the signature. The comparison
  \<^verbatim>\<open>top_k <= 0\<close> is defined for integers and booleans (\<^verbatim>\<open>False\<close> is \<^verbatim>\<open>0\<close>) and raises
  \<^verbatim>\<open>TypeError\<close> for \<^verbatim>\<open>None\<close>, strings, lists and dictionaries.
\<close>

definition quoted :: "string \<Rightarrow> string" where
  "quoted s = CHR 0x27 # s @ [CHR 0x27]"

definition le_not_supported :: "pyval \<Rightarrow> string" where
  "le_not_supported v =
     quoted ''<='' @ '' not supported between instances of '' @ quoted (type_name v)
       @ '' and '' @ quoted ''int''"

definition init :: "pyval option \<Rightarrow> pyval option \<Rightarrow> pyval option \<Rightarrow> 'e error + 'store MemoryRetriever" where
  "init filters_arg top_k_arg scale_score_arg =
     (let f = (case filters_arg of None \<Rightarrow> PNone | Some v \<Rightarrow> v);
          k = (case top_k_arg of None \<Rightarrow> PInt 10 | Some v \<Rightarrow> v);
          s = (case scale_score_arg of None \<Rightarrow> PBool True | Some v \<Rightarrow> v);
          self = \<lparr>filters = f, top_k = k, scale_score = s, store = None, store_name = None\<rparr>
      in case k of
           PInt i \<Rightarrow>
             if i \<le> 0 then Inl (ValueError (''top_k must be > 0, but got '' @ str_int i))
             else Inr self
         | PBool b \<Rightarrow>
             if \<not> b then Inl (ValueError (''top_k must be > 0, but got False''))
             else Inr self
         | _ \<Rightarrow> Inl (TypeError (le_not_supported k)))"

text \<open>
  Modelled from the spec: the setter of the property \<^verbatim>\<open>store\<close> belongs to
  \<^verbatim>\<open>StoreAwareMixin\<close>, which is not among the sources. Following the specification,
  assigning a store that is not one of \<^verbatim>\<open>supported_stores\<close> fails with an invalid-argument
  error naming the incompatibility, and assigning a compatible store binds it. Which stores are
  compatible is the parameter \<open>compatible\<close>.
\<close>

definition set_store ::
  "('store \<Rightarrow> bool) \<Rightarrow> 'store MemoryRetriever \<Rightarrow> 'store \<Rightarrow> 'e error + 'store MemoryRetriever" where
  "set_store compatible self s =
     (if compatible s then Inr (self\<lparr>store := Some s\<rparr>)
      else Inl (ValueError ''Store type is not compatible with this component''))"

subsection \<open>Serialisation\<close>

text \<open>
  \<^verbatim>\<open>to_dict\<close>. The store's own \<^verbatim>\<open>to_dict\<close> is the parameter \<open>store_to_dict\<close>, and
  \<open>ident\<close> is \<^verbatim>\<open>id(self)\<close>. The two \<^verbatim>\<open>if\<close> statements of the source run one after
  the other, so the second assignment overwrites the first.
\<close>

definition to_dict ::
  "('store \<Rightarrow> pyval) \<Rightarrow> int \<Rightarrow> 'store MemoryRetriever \<Rightarrow> (string \<times> pyval) list" where
  "to_dict store_to_dict ident self =
     (let st0 = PNone;
          st1 = (case store self of Some s \<Rightarrow> store_to_dict s | None \<Rightarrow> st0);
          st2 = (case store_name self of
                   Some n \<Rightarrow> if n \<noteq> [] then PStr n else st1
                 | None \<Rightarrow> st1)
      in [(''hash'', PInt ident),
          (''type'', PStr cls_name),
          (''store'', st2),
          (''init_parameters'',
             PDict [(''filters'', filters self),
                    (''top_k'', top_k self),
                    (''scale_score'', scale_score self)])])"

text \<open>
  \<^verbatim>\<open>cls(**init_params)\<close>: the value must be a mapping, every key must name a parameter of
  the constructor, and a parameter without a key takes its default.
\<close>

definition init_kwargs :: "pyval \<Rightarrow> 'e error + 'store MemoryRetriever" where
  "init_kwargs init_params =
     (case init_params of
        PDict kw \<Rightarrow>
          (case filter (\<lambda>k. k \<notin> set [''filters'', ''top_k'', ''scale_score'']) (map fst kw) of
             [] \<Rightarrow> init (map_of kw ''filters'') (map_of kw ''top_k'') (map_of kw ''scale_score'')
           | k # _ \<Rightarrow>
               Inl (TypeError (''MemoryRetriever.__init__() got an unexpected keyword argument ''
                                 @ quoted k)))
      | v \<Rightarrow>
          Inl (TypeError (''MemoryRetriever() argument after ** must be a mapping, not ''
                            @ type_name v)))"

text \<open>
  \<^verbatim>\<open>store.registry[store_type]\<close>: the registry maps the names of the store classes to their
  \<^verbatim>\<open>from_dict\<close>. A list or a dictionary as key is unhashable; any other key that is not a
  registered name is missing.
\<close>

definition registry_lookup ::
  "(string \<rightharpoonup> (pyval \<Rightarrow> 'e + 'store)) \<Rightarrow> pyval \<Rightarrow> 'e error + (pyval \<Rightarrow> 'e + 'store)" where
  "registry_lookup registry store_type =
     (case store_type of
        PStr n \<Rightarrow> (case registry n of None \<Rightarrow> Inl (KeyError store_type) | Some fd \<Rightarrow> Inr fd)
      | PList _ \<Rightarrow> Inl (TypeError (''unhashable type: '' @ quoted ''list''))
      | PDict _ \<Rightarrow> Inl (TypeError (''unhashable type: '' @ quoted ''dict''))
      | _ \<Rightarrow> Inl (KeyError store_type))"

text \<open>
  \<^verbatim>\<open>from_dict\<close>, statement by statement. The registry of store classes and the
  compatibility test of the store setter are parameters.
\<close>

definition from_dict ::
  "(string \<rightharpoonup> (pyval \<Rightarrow> 'e + 'store)) \<Rightarrow> ('store \<Rightarrow> bool) \<Rightarrow> (string \<times> pyval) list
     \<Rightarrow> 'e error + 'store MemoryRetriever" where
  "from_dict registry compatible data =
     (case map_of data ''type'' of
        None \<Rightarrow> Inl (ComponentDeserializationError MissingType)
      | Some t \<Rightarrow>
          if t \<noteq> PStr cls_name
          then Inl (ComponentDeserializationError (CannotDeserialize t cls_name))
          else
            (case map_of data ''init_parameters'' of
               None \<Rightarrow> Inl (KeyError (PStr ''init_parameters''))
             | Some init_params \<Rightarrow>
                 (case init_kwargs init_params of
                    Inl e \<Rightarrow> Inl e
                  | Inr component \<Rightarrow>
                      (case map_of data ''store'' of
                         None \<Rightarrow> Inl (KeyError (PStr ''store''))
                       | Some (PDict sd) \<Rightarrow>
                           (case map_of sd ''type'' of
                              None \<Rightarrow> Inl (KeyError (PStr ''type''))
                            | Some store_type \<Rightarrow>
                                (case registry_lookup registry store_type of
                                   Inl e \<Rightarrow> Inl e
                                 | Inr store_from_dict \<Rightarrow>
                                     (case store_from_dict (PDict sd) of
                                        Inl e \<Rightarrow> Inl (StoreError e)
                                      | Inr s \<Rightarrow> set_store compatible component s)))
                       | Some _ \<Rightarrow> Inr component))))"

subsection \<open>Running the retriever\<close>

text \<open>
  The store's \<^verbatim>\<open>bm25_retrieval(query, filters, top_k, scale_score)\<close> is a parameter: it
  returns a ranked list of documents or raises. Every call the retriever makes is recorded,
  with its arguments, in a log, so that what reaches the store can be stated.
\<close>

type_synonym call = "string \<times> pyval \<times> pyval \<times> pyval"

record 'doc run_output =
  documents :: "'doc list list"

text \<open>
  The loop \<^verbatim>\<open>for query in queries: docs.append(...)\<close>, with the list \<open>docs\<close> built so far
  and the log of calls made so far. An exception of the store ends the loop.
\<close>

fun run_loop ::
  "(string \<Rightarrow> pyval \<Rightarrow> pyval \<Rightarrow> pyval \<Rightarrow> 'e + 'doc list) \<Rightarrow> string list \<Rightarrow> pyval \<Rightarrow> pyval \<Rightarrow> pyval
     \<Rightarrow> 'doc list list \<Rightarrow> call list \<Rightarrow> ('e error + 'doc list list) \<times> call list" where
  "run_loop bm25 [] f k s docs log = (Inr docs, log)"
| "run_loop bm25 (query # queries) f k s docs log =
     (case bm25 query f k s of
        Inl e \<Rightarrow> (Inl (StoreError e), log @ [(query, f, k, s)])
      | Inr d \<Rightarrow> run_loop bm25 queries f k s (docs @ [d]) (log @ [(query, f, k, s)]))"

text \<open>
  \<^verbatim>\<open>run(self, queries, filters=None, top_k=None, scale_score=None)\<close>. The result is the
  value returned or the exception raised, together with the calls made to the store.
\<close>

definition run ::
  "('store \<Rightarrow> string \<Rightarrow> pyval \<Rightarrow> pyval \<Rightarrow> pyval \<Rightarrow> 'e + 'doc list) \<Rightarrow> 'store MemoryRetriever
     \<Rightarrow> string list \<Rightarrow> pyval \<Rightarrow> pyval \<Rightarrow> pyval \<Rightarrow> ('e error + 'doc run_output) \<times> call list" where
  "run bm25_retrieval self queries filters_arg top_k_arg scale_score_arg =
     (case store self of
        None \<Rightarrow>
          (Inl (ValueError
             ''MemoryRetriever needs a store to run: set the store instance to the self.store attribute''),
           [])
      | Some st \<Rightarrow>
          (let f = (if filters_arg = PNone then filters self else filters_arg);
               k = (if top_k_arg = PNone then top_k self else top_k_arg);
               s = (if scale_score_arg = PNone then scale_score self else scale_score_arg)
           in case run_loop (bm25_retrieval st) queries f k s [] [] of
                (Inl e, log) \<Rightarrow> (Inl e, log)
              | (Inr docs, log) \<Rightarrow> (Inr \<lparr>documents = docs\<rparr>, log)))"

subsection \<open>A small store for concrete instances\<close>

text \<open>
  The theorems below hold for every store. To instantiate them, a small store is enough: a
  dictionary from document ids to contents, holding the five documents of the test
  \<^verbatim>\<open>test_memory_retriever.py\<close>. Its retrieval is a stand-in, not BM25: it raises on an empty
  query, and otherwise returns the contents whose first word is the query, at most \<open>top_k\<close>
  of them when \<open>top_k\<close> is an integer.
\<close>

type_synonym example_store = "(string \<times> string) list"

definition mock_docs :: example_store where
  "mock_docs =
     [(''1'', ''Javascript is a popular programming language''),
      (''2'', ''Java is a popular programming language''),
      (''3'', ''Python is a popular programming language''),
      (''4'', ''Ruby is a popular programming language''),
      (''5'', ''PHP is a popular programming language'')]"

definition example_retrieval ::
  "example_store \<Rightarrow> string \<Rightarrow> pyval \<Rightarrow> pyval \<Rightarrow> pyval \<Rightarrow> string + string list" where
  "example_retrieval st query f k s =
     (if query = [] then Inl ''Query should be a non-empty string''
      else
        (let hits = filter (\<lambda>content. takeWhile (\<lambda>c. c \<noteq> CHR '' '') content = query) (map snd st)
         in Inr (case k of PInt i \<Rightarrow> take (nat i) hits | _ \<Rightarrow> hits)))"

definition example_to_dict :: "example_store \<Rightarrow> pyval" where
  "example_to_dict st =
     PDict [(''type'', PStr ''MemoryDocumentStore''),
            (''documents'', PDict (map (\<lambda>(i, content). (i, PStr content)) st))]"

definition example_from_dict :: "pyval \<Rightarrow> string + example_store" where
  "example_from_dict d =
     (case d of
        PDict kv \<Rightarrow>
          (case map_of kv ''documents'' of
             Some (PDict ds) \<Rightarrow>
               Inr (map (\<lambda>(i, v). (i, case v of PStr content \<Rightarrow> content | _ \<Rightarrow> [])) ds)
           | _ \<Rightarrow> Inl ''no documents'')
      | _ \<Rightarrow> Inl ''not a dictionary'')"

definition example_registry :: "string \<rightharpoonup> (pyval \<Rightarrow> string + example_store)" where
  "example_registry = [''MemoryDocumentStore'' \<mapsto> example_from_dict]"

definition example_retriever :: "example_store MemoryRetriever" where
  "example_retriever =
     \<lparr>filters = PNone, top_k = PInt 5, scale_score = PBool True,
      store = Some mock_docs, store_name = None\<rparr>"

section \<open>Auxiliary facts\<close>

subsection \<open>The decimal rendering can be read back\<close>

lemma digit_val_digit_char: "d < 10 \<Longrightarrow> digit_val (digit_char d) = d"
proof -
  assume "d < 10"
  then have "d \<in> {0,1,2,3,4,5,6,7,8,9}" by auto
  then show ?thesis
    by (auto simp: digit_val_def digit_char_def)
qed

lemma digit_char_not_minus: "d < 10 \<Longrightarrow> digit_char d \<noteq> CHR ''-''"
proof -
  assume "d < 10"
  then have "d \<in> {0,1,2,3,4,5,6,7,8,9}" by auto
  then show ?thesis
    by (auto simp: digit_char_def)
qed

lemma read_nat_snoc: "read_nat (cs @ [c]) = 10 * read_nat cs + digit_val c"
  by (simp add: read_nat_def)

lemma read_nat_single: "read_nat [c] = digit_val c"
  by (simp add: read_nat_def)

lemma read_nat_str_nat: "read_nat (str_nat n) = n"
proof (induction n rule: str_nat.induct)
  case (1 n)
  show ?case
  proof (cases "n < 10")
    case True
    then show ?thesis
      by (subst str_nat.simps) (simp add: read_nat_single digit_val_digit_char)
  next
    case False
    have "read_nat (str_nat n) = 10 * read_nat (str_nat (n div 10)) + digit_val (digit_char (n mod 10))"
      using False by (subst str_nat.simps) (simp add: read_nat_snoc)
    also have "\<dots> = 10 * (n div 10) + n mod 10"
      using 1 False by (simp add: digit_val_digit_char)
    finally show ?thesis by simp
  qed
qed

lemma str_nat_nonempty: "str_nat n \<noteq> []"
  by (subst str_nat.simps) simp

lemma hd_str_nat_not_minus: "hd (str_nat n) \<noteq> CHR ''-''"
proof (induction n rule: str_nat.induct)
  case (1 n)
  show ?case
  proof (cases "n < 10")
    case True
    then show ?thesis
      by (subst str_nat.simps) (simp add: digit_char_not_minus)
  next
    case False
    then have "hd (str_nat n) = hd (str_nat (n div 10))"
      by (subst str_nat.simps) (simp add: str_nat_nonempty)
    with 1 False show ?thesis by simp
  qed
qed

lemma read_int_str_int: "read_int (str_int i) = i"
proof (cases "i < 0")
  case True
  then show ?thesis by (simp add: read_int_def str_int_def read_nat_str_nat)
next
  case False
  obtain c cs where cs: "str_nat (nat i) = c # cs"
    using str_nat_nonempty [of "nat i"] by (cases "str_nat (nat i)") auto
  have "c \<noteq> CHR ''-''" using hd_str_nat_not_minus [of "nat i"] cs by simp
  then have "read_int (c # cs) = int (read_nat (c # cs))" by (simp add: read_int_def)
  then show ?thesis using False cs read_nat_str_nat [of "nat i"] by (simp add: str_int_def)
qed

subsection \<open>The loop over the queries\<close>

lemma run_loop_returns:
  "\<forall>q \<in> set queries. \<exists>d. bm25 q f k s = Inr d \<Longrightarrow>
   run_loop bm25 queries f k s docs log =
     (Inr (docs @ map (\<lambda>q. projr (bm25 q f k s)) queries), log @ map (\<lambda>q. (q, f, k, s)) queries)"
proof (induction queries arbitrary: docs log)
  case Nil
  then show ?case by simp
next
  case (Cons q queries)
  from Cons.prems obtain d where d: "bm25 q f k s = Inr d" by auto
  from Cons.prems have "\<forall>q \<in> set queries. \<exists>d. bm25 q f k s = Inr d" by simp
  from Cons.IH [OF this] d show ?case by simp
qed

lemma run_loop_log_prefix:
  "\<exists>n \<le> length queries. (queries \<noteq> [] \<longrightarrow> 0 < n) \<and>
     snd (run_loop bm25 queries f k s docs log) = log @ map (\<lambda>q. (q, f, k, s)) (take n queries)"
proof (induction queries arbitrary: docs log)
  case Nil
  then show ?case by simp
next
  case (Cons q queries)
  show ?case
  proof (cases "bm25 q f k s")
    case (Inl e)
    then have "snd (run_loop bm25 (q # queries) f k s docs log)
                 = log @ map (\<lambda>q. (q, f, k, s)) (take 1 (q # queries))"
      by simp
    then show ?thesis by (intro exI [of _ 1]) simp
  next
    case (Inr d)
    obtain n where n: "n \<le> length queries"
      "snd (run_loop bm25 queries f k s (docs @ [d]) (log @ [(q, f, k, s)]))
         = (log @ [(q, f, k, s)]) @ map (\<lambda>q. (q, f, k, s)) (take n queries)"
      using Cons.IH by blast
    with Inr have "snd (run_loop bm25 (q # queries) f k s docs log)
                 = log @ map (\<lambda>q. (q, f, k, s)) (take (Suc n) (q # queries))"
      by simp
    with n(1) show ?thesis by (intro exI [of _ "Suc n"]) simp
  qed
qed

lemma run_loop_no_own_error:
  "fst (run_loop bm25 queries f k s docs log) = Inl e \<Longrightarrow> \<exists>e'. e = StoreError e'"
  by (induction queries arbitrary: docs log) (auto split: sum.splits)


lemma result_fst:
  "fst (case p of (Inl e, log) \<Rightarrow> (Inl e, log) | (Inr d, log) \<Rightarrow> (Inr (g d), log))
     = (case fst p of Inl e \<Rightarrow> Inl e | Inr d \<Rightarrow> Inr (g d))"
  by (cases p; cases "fst p") auto

lemma result_snd:
  "snd (case p of (Inl e, log) \<Rightarrow> (Inl e, log) | (Inr d, log) \<Rightarrow> (Inr (g d), log)) = snd p"
  by (cases p; cases "fst p") auto

lemma run_bound:
  assumes "store self = Some st"
    and "F = (if f = PNone then filters self else f)"
    and "K = (if k = PNone then top_k self else k)"
    and "S = (if s = PNone then scale_score self else s)"
  shows "fst (run bm25_retrieval self queries f k s)
           = (case fst (run_loop (bm25_retrieval st) queries F K S [] []) of
                Inl e \<Rightarrow> Inl e | Inr docs \<Rightarrow> Inr \<lparr>documents = docs\<rparr>)"
    and "snd (run bm25_retrieval self queries f k s)
           = snd (run_loop (bm25_retrieval st) queries F K S [] [])"
  unfolding run_def Let_def assms option.case by (rule result_fst, rule result_snd)

lemma example_retriever_bound: "store example_retriever = Some mock_docs"
  by (simp add: example_retriever_def)

lemma example_retrieval_PHP:
  "example_retrieval mock_docs ''PHP'' PNone (PInt 5) (PBool True)
     = Inr [''PHP is a popular programming language'']"
  by (simp add: example_retrieval_def mock_docs_def Let_def)

lemma example_retrieval_Java:
  "example_retrieval mock_docs ''Java'' PNone (PInt 5) (PBool True)
     = Inr [''Java is a popular programming language'']"
  by (simp add: example_retrieval_def mock_docs_def Let_def)

section \<open>Construction: the claims\<close>

text \<open>
  Claim C4. For every integer \<open>top_k \<le> 0\<close> the constructor fails with a \<^verbatim>\<open>ValueError\<close>
  whose message ends with the decimal rendering of the offending value (from which the value
  can be read back); for every integer \<open>top_k > 0\<close> it succeeds and records the value as
  the attribute \<open>top_k\<close> of the instance.
\<close>

theorem init_validates_top_k:
  "(k \<le> 0 \<longrightarrow>
      (init f (Some (PInt k)) s :: 'e error + 'store MemoryRetriever)
        = Inl (ValueError (''top_k must be > 0, but got '' @ str_int k))
      \<and> read_int (str_int k) = k)
   \<and> (0 < k \<longrightarrow>
      (\<exists>self. (init f (Some (PInt k)) s :: 'e error + 'store MemoryRetriever) = Inr self
         \<and> top_k self = PInt k))"
  by (simp add: init_def Let_def read_int_str_int)

theorem init_validates_top_k_witness:
  "(init None (Some (PInt (- 2))) (Some (PBool False)) :: unit error + unit MemoryRetriever)
      = Inl (ValueError ''top_k must be > 0, but got -2'')
   \<and> (\<exists>self. (init None (Some (PInt 5)) (Some (PBool False)) :: unit error + unit MemoryRetriever)
          = Inr self \<and> top_k self = PInt 5)"
proof -
  have str: "str_int (- 2) = ''-2''"
    by (simp add: str_int_def str_nat.simps digit_char_def)
  from init_validates_top_k [of "- 2" None "Some (PBool False)", where ?'e = unit and ?'store = unit]
  have "(init None (Some (PInt (- 2))) (Some (PBool False)) :: unit error + unit MemoryRetriever)
      = Inl (ValueError ''top_k must be > 0, but got -2'')"
    unfolding str by simp
  moreover from init_validates_top_k [of 5 None "Some (PBool False)", where ?'e = unit and ?'store = unit]
  have "\<exists>self. (init None (Some (PInt 5)) (Some (PBool False)) :: unit error + unit MemoryRetriever)
          = Inr self \<and> top_k self = PInt 5"
    by simp
  ultimately show ?thesis by blast
qed

text \<open>
  Claim C8, as amended. When the retriever is constructed without a \<open>filters\<close> argument
  (and construction succeeds), its attribute \<open>filters\<close> is \<^verbatim>\<open>None\<close>, as the docstring of
  the constructor says; it is not the empty mapping.
\<close>

theorem init_default_filters_none:
  assumes "(init None top_k_arg scale_score_arg :: 'e error + 'store MemoryRetriever) = Inr self"
  shows "filters self = PNone"
  using assms by (auto simp: init_def Let_def split: pyval.splits if_splits)

theorem init_default_filters_none_witness:
  "(init None None None :: unit error + unit MemoryRetriever)
     = Inr \<lparr>filters = PNone, top_k = PInt 10, scale_score = PBool True,
            store = None, store_name = None\<rparr>
   \<and> filters \<lparr>filters = PNone, top_k = PInt 10, scale_score = PBool True,
              store = (None :: unit option), store_name = None\<rparr> = PNone"
proof -
  have made: "(init None None None :: unit error + unit MemoryRetriever)
     = Inr \<lparr>filters = PNone, top_k = PInt 10, scale_score = PBool True,
            store = None, store_name = None\<rparr>"
    by (simp add: init_def)
  from made init_default_filters_none [OF made] show ?thesis by blast
qed

text \<open>
  The claim C8 as stated fails: the default construction \<^verbatim>\<open>MemoryRetriever()\<close> has
  \<open>filters\<close> equal to \<^verbatim>\<open>None\<close>, which is not the empty dictionary.
\<close>

theorem init_default_filters_counterexample:
  "(init None None None :: unit error + unit MemoryRetriever)
     = Inr \<lparr>filters = PNone, top_k = PInt 10, scale_score = PBool True,
            store = None, store_name = None\<rparr>
   \<and> filters \<lparr>filters = PNone, top_k = PInt 10, scale_score = PBool True,
              store = (None :: unit option), store_name = None\<rparr> \<noteq> PDict []"
  by (simp add: init_def)

section \<open>Running the retriever: the claims\<close>

text \<open>
  Claim C1. For a retriever with a bound store, a list of queries \<open>[q1..qn]\<close> and any
  per-call arguments, when the store's \<^verbatim>\<open>bm25_retrieval\<close> returns for every query with the
  effective filters, top_k and scale_score, \<^verbatim>\<open>run\<close> returns a record whose field
  \<open>documents\<close> is a list of exactly \<open>n\<close> lists, and the \<open>i\<close>-th list is exactly what the
  store returned for \<open>qi\<close>: in the order of the queries and unmodified.
\<close>

theorem run_one_list_per_query:
  fixes bm25_retrieval :: "'store \<Rightarrow> string \<Rightarrow> pyval \<Rightarrow> pyval \<Rightarrow> pyval \<Rightarrow> 'e + 'doc list"
  assumes bound: "store self = Some st"
    and returns: "\<forall>q \<in> set queries. \<exists>d.
        bm25_retrieval st q
          (if f = PNone then filters self else f)
          (if k = PNone then top_k self else k)
          (if s = PNone then scale_score self else s) = Inr d"
  shows "\<exists>docs. fst (run bm25_retrieval self queries f k s) = Inr \<lparr>documents = docs\<rparr>
           \<and> length docs = length queries
           \<and> (\<forall>i < length queries.
                 bm25_retrieval st (queries ! i)
                   (if f = PNone then filters self else f)
                   (if k = PNone then top_k self else k)
                   (if s = PNone then scale_score self else s) = Inr (docs ! i))"
proof -
  define F where "F = (if f = PNone then filters self else f)"
  define K where "K = (if k = PNone then top_k self else k)"
  define S where "S = (if s = PNone then scale_score self else s)"
  define docs where "docs = map (\<lambda>q. projr (bm25_retrieval st q F K S)) queries"
  have returns': "\<forall>q \<in> set queries. \<exists>d. bm25_retrieval st q F K S = Inr d"
    using returns unfolding F_def K_def S_def .
  have loop: "fst (run_loop (bm25_retrieval st) queries F K S [] []) = Inr docs"
    using run_loop_returns [of queries "bm25_retrieval st" F K S "[]" "[]"] returns'
    unfolding docs_def by simp
  have out: "fst (run bm25_retrieval self queries f k s) = Inr \<lparr>documents = docs\<rparr>"
    unfolding run_bound(1) [OF bound F_def K_def S_def] loop by simp
  have len: "length docs = length queries"
    unfolding docs_def by simp
  have each: "\<forall>i < length queries. bm25_retrieval st (queries ! i) F K S = Inr (docs ! i)"
  proof (intro allI impI)
    fix i assume i: "i < length queries"
    then have "queries ! i \<in> set queries" by simp
    with returns' obtain d where "bm25_retrieval st (queries ! i) F K S = Inr d" by blast
    with i show "bm25_retrieval st (queries ! i) F K S = Inr (docs ! i)"
      unfolding docs_def by simp
  qed
  from out len each show ?thesis
    unfolding F_def K_def S_def by (intro exI [of _ docs] conjI)
qed

theorem run_one_list_per_query_witness:
  "store example_retriever = Some mock_docs
   \<and> example_retrieval mock_docs ''PHP'' PNone (PInt 5) (PBool True)
       = Inr [''PHP is a popular programming language'']
   \<and> example_retrieval mock_docs ''Java'' PNone (PInt 5) (PBool True)
       = Inr [''Java is a popular programming language'']
   \<and> fst (run example_retrieval example_retriever [''PHP'', ''Java''] PNone PNone PNone)
       = Inr \<lparr>documents = [[''PHP is a popular programming language''],
                            [''Java is a popular programming language'']]\<rparr>"
proof -
  have eff: "(if PNone = PNone then filters example_retriever else PNone) = PNone"
    "(if PNone = PNone then top_k example_retriever else PNone) = PInt 5"
    "(if PNone = PNone then scale_score example_retriever else PNone) = PBool True"
    by (simp_all add: example_retriever_def)
  have returns: "\<forall>q \<in> set [''PHP'', ''Java'']. \<exists>d.
      example_retrieval mock_docs q
        (if PNone = PNone then filters example_retriever else PNone)
        (if PNone = PNone then top_k example_retriever else PNone)
        (if PNone = PNone then scale_score example_retriever else PNone) = Inr d"
    unfolding eff by (simp add: example_retrieval_PHP example_retrieval_Java)
  obtain docs where out:
      "fst (run example_retrieval example_retriever [''PHP'', ''Java''] PNone PNone PNone)
         = Inr \<lparr>documents = docs\<rparr>"
    and len: "length docs = length [''PHP'', ''Java'']"
    and each: "\<forall>i < length [''PHP'', ''Java''].
        example_retrieval mock_docs ([''PHP'', ''Java''] ! i) PNone (PInt 5) (PBool True)
          = Inr (docs ! i)"
    using run_one_list_per_query [where bm25_retrieval = example_retrieval
            and f = PNone and k = PNone and s = PNone,
            OF example_retriever_bound returns]
    unfolding eff by blast
  from each have "example_retrieval mock_docs ''PHP'' PNone (PInt 5) (PBool True) = Inr (docs ! 0)"
    by (auto dest: spec [of _ 0])
  then have d0: "docs ! 0 = [''PHP is a popular programming language'']"
    unfolding example_retrieval_PHP by simp
  from each have "example_retrieval mock_docs ''Java'' PNone (PInt 5) (PBool True) = Inr (docs ! 1)"
    by (auto dest: spec [of _ 1])
  then have d1: "docs ! 1 = [''Java is a popular programming language'']"
    unfolding example_retrieval_Java by simp
  from len obtain a b where "docs = [a, b]"
    by (cases docs; cases "tl docs"; cases "tl (tl docs)") auto
  with d0 d1 have "docs = [[''PHP is a popular programming language''],
                            [''Java is a popular programming language'']]"
    by simp
  with out show ?thesis
    by (simp add: example_retriever_bound example_retrieval_PHP example_retrieval_Java)
qed



text \<open>
  Claim C5. For a retriever with no store bound, every call to \<^verbatim>\<open>run\<close> fails with a
  \<^verbatim>\<open>ValueError\<close> whose message tells the caller to set the store, and the store's
  retrieval is never invoked: the log of calls is empty.
\<close>

theorem run_without_store:
  assumes "store self = None"
  shows "run bm25_retrieval self queries f k s =
           (Inl (ValueError
              ''MemoryRetriever needs a store to run: set the store instance to the self.store attribute''),
            [])"
  using assms by (simp add: run_def)

theorem run_without_store_witness:
  "store (example_retriever\<lparr>store := None\<rparr>) = None
   \<and> run example_retrieval (example_retriever\<lparr>store := None\<rparr>) [''PHP''] PNone PNone PNone =
           (Inl (ValueError
              ''MemoryRetriever needs a store to run: set the store instance to the self.store attribute''),
            [])"
proof -
  have unbound: "store (example_retriever\<lparr>store := None\<rparr>) = None" by simp
  show ?thesis
    by (intro conjI unbound run_without_store [OF unbound])
qed

text \<open>
  Claim C9. For a retriever with a bound store and any integer given as per-call \<open>top_k\<close>,
  also one that is zero or negative, \<^verbatim>\<open>run\<close> does not validate it: \<^verbatim>\<open>run\<close> raises no
  \<^verbatim>\<open>ValueError\<close>, every call to the store carries that integer unchanged, a call is made
  when there is a query, and \<^verbatim>\<open>run\<close> returns whenever the store returns for every query.
\<close>

theorem run_top_k_override_not_validated:
  fixes bm25_retrieval :: "'store \<Rightarrow> string \<Rightarrow> pyval \<Rightarrow> pyval \<Rightarrow> pyval \<Rightarrow> 'e + 'doc list"
  assumes bound: "store self = Some st"
  shows "(\<forall>m. fst (run bm25_retrieval self queries f (PInt k) s) \<noteq> Inl (ValueError m))
       \<and> (\<forall>c \<in> set (snd (run bm25_retrieval self queries f (PInt k) s)). fst (snd (snd c)) = PInt k)
       \<and> (queries \<noteq> [] \<longrightarrow> snd (run bm25_retrieval self queries f (PInt k) s) \<noteq> [])
       \<and> ((\<forall>q \<in> set queries. \<exists>d. bm25_retrieval st q (if f = PNone then filters self else f) (PInt k)
                 (if s = PNone then scale_score self else s) = Inr d)
            \<longrightarrow> (\<exists>out. fst (run bm25_retrieval self queries f (PInt k) s) = Inr out))"
proof -
  define F where "F = (if f = PNone then filters self else f)"
  define S where "S = (if s = PNone then scale_score self else s)"
  define loop where "loop = run_loop (bm25_retrieval st) queries F (PInt k) S [] []"
  have K: "PInt k = (if PInt k = PNone then top_k self else PInt k)" by simp
  have fst_run: "fst (run bm25_retrieval self queries f (PInt k) s)
                   = (case fst loop of Inl e \<Rightarrow> Inl e | Inr docs \<Rightarrow> Inr \<lparr>documents = docs\<rparr>)"
    unfolding loop_def by (rule run_bound(1) [OF bound F_def K S_def])
  have snd_run: "snd (run bm25_retrieval self queries f (PInt k) s) = snd loop"
    unfolding loop_def by (rule run_bound(2) [OF bound F_def K S_def])
  have no_value_error: "\<forall>m. fst (run bm25_retrieval self queries f (PInt k) s) \<noteq> Inl (ValueError m)"
  proof (intro allI notI)
    fix m assume "fst (run bm25_retrieval self queries f (PInt k) s) = Inl (ValueError m)"
    with fst_run have "fst loop = Inl (ValueError m)" by (cases "fst loop") simp_all
    then show False using run_loop_no_own_error unfolding loop_def by fastforce
  qed
  obtain n where n: "n \<le> length queries" "queries \<noteq> [] \<longrightarrow> 0 < n"
      "snd loop = map (\<lambda>q. (q, F, PInt k, S)) (take n queries)"
    using run_loop_log_prefix [of queries "bm25_retrieval st" F "PInt k" S "[]" "[]"]
    unfolding loop_def by auto
  have passed: "\<forall>c \<in> set (snd (run bm25_retrieval self queries f (PInt k) s)). fst (snd (snd c)) = PInt k"
    unfolding snd_run n(3) by auto
  have called: "queries \<noteq> [] \<longrightarrow> snd (run bm25_retrieval self queries f (PInt k) s) \<noteq> []"
    unfolding snd_run n(3) using n(1,2) by auto
  have returns: "(\<forall>q \<in> set queries. \<exists>d. bm25_retrieval st q F (PInt k) S = Inr d)
            \<longrightarrow> (\<exists>out. fst (run bm25_retrieval self queries f (PInt k) s) = Inr out)"
  proof
    assume "\<forall>q \<in> set queries. \<exists>d. bm25_retrieval st q F (PInt k) S = Inr d"
    from run_loop_returns [of queries "bm25_retrieval st" F "PInt k" S "[]" "[]"] this
    have "\<exists>docs. fst loop = Inr docs" unfolding loop_def by simp
    with fst_run show "\<exists>out. fst (run bm25_retrieval self queries f (PInt k) s) = Inr out"
      by auto
  qed
  from no_value_error passed called returns show ?thesis
    unfolding F_def S_def by (intro conjI)
qed

theorem run_top_k_override_not_validated_witness:
  "store example_retriever = Some mock_docs
   \<and> example_retrieval mock_docs ''PHP'' PNone (PInt (- 2)) (PBool True) = Inr []
   \<and> fst (run example_retrieval example_retriever [''PHP''] PNone (PInt (- 2)) PNone)
        \<noteq> Inl (ValueError ''top_k must be > 0, but got -2'')
   \<and> snd (run example_retrieval example_retriever [''PHP''] PNone (PInt (- 2)) PNone) \<noteq> []
   \<and> (\<exists>out. fst (run example_retrieval example_retriever [''PHP''] PNone (PInt (- 2)) PNone) = Inr out)"
proof -
  have eff: "(if PNone = PNone then filters example_retriever else PNone) = PNone"
    "(if PNone = PNone then scale_score example_retriever else PNone) = PBool True"
    by (simp_all add: example_retriever_def)
  have ret: "example_retrieval mock_docs ''PHP'' PNone (PInt (- 2)) (PBool True) = Inr []"
    by (simp add: example_retrieval_def mock_docs_def Let_def)
  note inst = run_top_k_override_not_validated [where bm25_retrieval = example_retrieval
        and queries = "[''PHP'']" and f = PNone and k = "- 2" and s = PNone,
        OF example_retriever_bound, unfolded eff]
  from inst have "fst (run example_retrieval example_retriever [''PHP''] PNone (PInt (- 2)) PNone)
        \<noteq> Inl (ValueError ''top_k must be > 0, but got -2'')"
    by blast
  moreover from inst have "snd (run example_retrieval example_retriever [''PHP''] PNone (PInt (- 2)) PNone) \<noteq> []"
    by blast
  moreover from inst ret
  have "\<exists>out. fst (run example_retrieval example_retriever [''PHP''] PNone (PInt (- 2)) PNone) = Inr out"
    by simp
  ultimately show ?thesis using example_retriever_bound ret by blast
qed

text \<open>
  Claim C10. For a retriever with a bound store, \<^verbatim>\<open>run\<close> on the empty list of queries
  succeeds, makes no call to the store, and returns the record whose field \<open>documents\<close> is
  the empty list.
\<close>

theorem run_empty_queries:
  assumes "store self = Some st"
  shows "run bm25_retrieval self [] f k s = (Inr \<lparr>documents = []\<rparr>, [])"
  using assms by (simp add: run_def Let_def)

theorem run_empty_queries_witness:
  "store example_retriever = Some mock_docs
   \<and> run example_retrieval example_retriever [] PNone PNone PNone = (Inr \<lparr>documents = []\<rparr>, [])"
  by (intro conjI example_retriever_bound run_empty_queries [OF example_retriever_bound])

section \<open>Serialisation: the claims\<close>

subsection \<open>Auxiliary facts\<close>

lemma map_of_to_dict:
  "map_of (to_dict store_to_dict ident self) ''type'' = Some (PStr cls_name)"
  "map_of (to_dict store_to_dict ident self) ''init_parameters'' =
     Some (PDict [(''filters'', filters self), (''top_k'', top_k self),
                  (''scale_score'', scale_score self)])"
  "map_of (to_dict store_to_dict ident self) ''store'' =
     Some (case store_name self of
             Some n \<Rightarrow> if n \<noteq> [] then PStr n
                       else (case store self of Some s \<Rightarrow> store_to_dict s | None \<Rightarrow> PNone)
           | None \<Rightarrow> (case store self of Some s \<Rightarrow> store_to_dict s | None \<Rightarrow> PNone))"
  by (simp_all add: to_dict_def Let_def)

lemma init_not_cde:
  "(init a b c :: 'e error + 'store MemoryRetriever) \<noteq> Inl (ComponentDeserializationError m)"
  by (simp add: init_def Let_def split: pyval.splits option.splits)

lemma init_kwargs_not_cde:
  "(init_kwargs p :: 'e error + 'store MemoryRetriever) \<noteq> Inl (ComponentDeserializationError m)"
  by (simp add: init_kwargs_def init_not_cde split: pyval.splits list.splits)

lemma registry_lookup_not_cde:
  "registry_lookup registry t \<noteq> Inl (ComponentDeserializationError m)"
  by (simp add: registry_lookup_def split: pyval.splits option.splits)

lemma set_store_not_cde:
  "set_store compatible self s \<noteq> Inl (ComponentDeserializationError m)"
  by (simp add: set_store_def)

lemma from_dict_type_ok:
  assumes "map_of data ''type'' = Some (PStr cls_name)"
  shows "from_dict registry compatible data \<noteq> Inl (ComponentDeserializationError m)"
proof -
  have rest: "from_dict registry compatible data =
     (case map_of data ''init_parameters'' of
               None \<Rightarrow> Inl (KeyError (PStr ''init_parameters''))
             | Some init_params \<Rightarrow>
                 (case init_kwargs init_params of
                    Inl e \<Rightarrow> Inl e
                  | Inr component \<Rightarrow>
                      (case map_of data ''store'' of
                         None \<Rightarrow> Inl (KeyError (PStr ''store''))
                       | Some (PDict sd) \<Rightarrow>
                           (case map_of sd ''type'' of
                              None \<Rightarrow> Inl (KeyError (PStr ''type''))
                            | Some store_type \<Rightarrow>
                                (case registry_lookup registry store_type of
                                   Inl e \<Rightarrow> Inl e
                                 | Inr store_from_dict \<Rightarrow>
                                     (case store_from_dict (PDict sd) of
                                        Inl e \<Rightarrow> Inl (StoreError e)
                                      | Inr s \<Rightarrow> set_store compatible component s)))
                       | Some _ \<Rightarrow> Inr component)))"
    using assms by (simp add: from_dict_def)
  show ?thesis
    unfolding rest
    by (auto simp: init_kwargs_not_cde registry_lookup_not_cde set_store_not_cde
          split: option.splits sum.splits pyval.splits)
qed

lemma init_kwargs_of_attributes:
  assumes "top_k x = PInt k" and "0 < k"
  shows "init_kwargs (PDict [(''filters'', filters x), (''top_k'', top_k x),
                              (''scale_score'', scale_score x)])
           = Inr (x\<lparr>store := None, store_name := None\<rparr>)"
  using assms by (simp add: init_kwargs_def init_def Let_def)

lemma from_dict_to_dict_unfold:
  fixes registry :: "string \<rightharpoonup> (pyval \<Rightarrow> 'e + 'store)"
  assumes "top_k x = PInt k" and "0 < k"
  shows "from_dict registry compatible (to_dict store_to_dict ident x) =
           (case map_of (to_dict store_to_dict ident x) ''store'' of
              None \<Rightarrow> Inl (KeyError (PStr ''store''))
            | Some (PDict sd) \<Rightarrow>
                (case map_of sd ''type'' of
                   None \<Rightarrow> Inl (KeyError (PStr ''type''))
                 | Some store_type \<Rightarrow>
                     (case registry_lookup registry store_type of
                        Inl e \<Rightarrow> Inl e
                      | Inr store_from_dict \<Rightarrow>
                          (case store_from_dict (PDict sd) of
                             Inl e \<Rightarrow> Inl (StoreError e)
                           | Inr s \<Rightarrow>
                               set_store compatible (x\<lparr>store := None, store_name := None\<rparr>) s)))
            | Some _ \<Rightarrow> Inr (x\<lparr>store := None, store_name := None\<rparr>))"
proof -
  have made: "init_kwargs (PDict [(''filters'', filters x), (''top_k'', top_k x),
                              (''scale_score'', scale_score x)])
           = (Inr (x\<lparr>store := None, store_name := None\<rparr>) :: 'e error + 'store MemoryRetriever)"
    by (rule init_kwargs_of_attributes [OF assms])
  show ?thesis
    by (simp add: from_dict_def map_of_to_dict(1,2) made)
qed

lemma example_round_trip: "example_from_dict (example_to_dict mock_docs) = Inr mock_docs"
  by (simp add: example_from_dict_def example_to_dict_def mock_docs_def)

subsection \<open>The store field of the serialised record\<close>

text \<open>
  Claim C6, as amended. The field \<open>store\<close> of the record that \<^verbatim>\<open>to_dict\<close> returns is:
  the deferred store name, as a string, when a non-empty name is present, whether or not a
  store instance is bound as well; else the serialised form of the store when an instance
  is bound; else \<^verbatim>\<open>None\<close>.
\<close>

theorem to_dict_store_field:
  "(\<forall>n. store_name self = Some n \<and> n \<noteq> [] \<longrightarrow>
        map_of (to_dict store_to_dict ident self) ''store'' = Some (PStr n))
   \<and> (\<forall>st. (store_name self = None \<or> store_name self = Some []) \<and> store self = Some st \<longrightarrow>
        map_of (to_dict store_to_dict ident self) ''store'' = Some (store_to_dict st))
   \<and> ((store_name self = None \<or> store_name self = Some []) \<and> store self = None \<longrightarrow>
        map_of (to_dict store_to_dict ident self) ''store'' = Some PNone)"
  unfolding map_of_to_dict(3) by auto

theorem to_dict_store_field_witness:
  "map_of (to_dict example_to_dict 7 (example_retriever\<lparr>store_name := Some ''memory''\<rparr>)) ''store''
      = Some (PStr ''memory'')
   \<and> map_of (to_dict example_to_dict 7 example_retriever) ''store'' = Some (example_to_dict mock_docs)
   \<and> map_of (to_dict example_to_dict 7 (example_retriever\<lparr>store := None\<rparr>)) ''store'' = Some PNone"
proof -
  from to_dict_store_field [of "example_retriever\<lparr>store_name := Some ''memory''\<rparr>" example_to_dict 7]
  have "map_of (to_dict example_to_dict 7 (example_retriever\<lparr>store_name := Some ''memory''\<rparr>)) ''store''
      = Some (PStr ''memory'')"
    by simp
  moreover from to_dict_store_field [of example_retriever example_to_dict 7]
  have "map_of (to_dict example_to_dict 7 example_retriever) ''store'' = Some (example_to_dict mock_docs)"
    by (simp add: example_retriever_def)
  moreover from to_dict_store_field [of "example_retriever\<lparr>store := None\<rparr>" example_to_dict 7]
  have "map_of (to_dict example_to_dict 7 (example_retriever\<lparr>store := None\<rparr>)) ''store'' = Some PNone"
    by (simp add: example_retriever_def)
  ultimately show ?thesis by blast
qed

text \<open>
  The claim C6 as stated fails: with a store instance bound and a deferred name present, the
  field is the name and not the serialised form of the store. This is the state of a
  component inside a pipeline, which \<^verbatim>\<open>from_dict\<close> expects to find as a string.
\<close>

theorem to_dict_store_field_counterexample:
  "store (example_retriever\<lparr>store_name := Some ''memory''\<rparr>) = Some mock_docs
   \<and> map_of (to_dict example_to_dict 7 (example_retriever\<lparr>store_name := Some ''memory''\<rparr>)) ''store''
        = Some (PStr ''memory'')
   \<and> PStr ''memory'' \<noteq> example_to_dict mock_docs"
  by (simp add: map_of_to_dict(3) example_retriever_def example_to_dict_def)

subsection \<open>Deserialisation errors\<close>

text \<open>
  Claim C7. For every input record, \<^verbatim>\<open>from_dict\<close> raises a
  \<^verbatim>\<open>ComponentDeserializationError\<close> if and only if the key \<open>type\<close> is absent or its value
  differs from the name of the class; when the value is the name of the class, any failure
  is another error (of the constructor, of a missing key, or of the reconstruction of the
  store).
\<close>

theorem from_dict_deserialization_error_iff:
  "(\<exists>m. from_dict registry compatible data = Inl (ComponentDeserializationError m))
     \<longleftrightarrow> (map_of data ''type'' = None
          \<or> (\<exists>t. map_of data ''type'' = Some t \<and> t \<noteq> PStr cls_name))"
proof (cases "map_of data ''type''")
  case None
  then show ?thesis by (simp add: from_dict_def)
next
  case (Some t)
  show ?thesis
  proof (cases "t = PStr cls_name")
    case True
    with Some from_dict_type_ok [of data registry compatible] show ?thesis by simp
  next
    case False
    with Some show ?thesis by (simp add: from_dict_def)
  qed
qed

theorem from_dict_deserialization_error_iff_witness:
  "(\<exists>m. from_dict example_registry (\<lambda>_. True) [(''init_parameters'', PDict []), (''store'', PNone)]
          = Inl (ComponentDeserializationError m))
   \<and> (\<exists>m. from_dict example_registry (\<lambda>_. True)
            [(''type'', PStr ''BM25Retriever''), (''init_parameters'', PDict []), (''store'', PNone)]
          = Inl (ComponentDeserializationError m))
   \<and> \<not> (\<exists>m. from_dict example_registry (\<lambda>_. True)
            [(''type'', PStr ''MemoryRetriever''), (''init_parameters'', PDict [(''top_k'', PInt 0)]),
             (''store'', PNone)]
          = Inl (ComponentDeserializationError m))"
proof -
  have "\<exists>m. from_dict example_registry (\<lambda>_. True) [(''init_parameters'', PDict []), (''store'', PNone)]
          = Inl (ComponentDeserializationError m)"
    unfolding from_dict_deserialization_error_iff by simp
  moreover have "\<exists>m. from_dict example_registry (\<lambda>_. True)
            [(''type'', PStr ''BM25Retriever''), (''init_parameters'', PDict []), (''store'', PNone)]
          = Inl (ComponentDeserializationError m)"
    unfolding from_dict_deserialization_error_iff by (simp add: cls_name_def)
  moreover have "\<not> (\<exists>m. from_dict example_registry (\<lambda>_. True)
            [(''type'', PStr ''MemoryRetriever''), (''init_parameters'', PDict [(''top_k'', PInt 0)]),
             (''store'', PNone)]
          = Inl (ComponentDeserializationError m))"
    unfolding from_dict_deserialization_error_iff by (simp add: cls_name_def)
  ultimately show ?thesis by blast
qed

subsection \<open>Round trip\<close>

text \<open>
  Claim C2, as amended. Let \<open>x\<close> be a retriever whose \<open>top_k\<close> is a positive integer.
  If \<open>x\<close> has no store bound, or has a non-empty deferred store name,
  \<^verbatim>\<open>from_dict(to_dict(x))\<close> returns a component with the filters, top_k and scale_score of
  \<open>x\<close> and no store bound (a named store is left to the pipeline). If \<open>x\<close> has a store
  bound and no deferred name, the store serialises to a dictionary whose type is registered,
  and the registered \<^verbatim>\<open>from_dict\<close> returns a compatible store \<open>s'\<close> from it, then
  \<^verbatim>\<open>from_dict(to_dict(x))\<close> returns a component with the filters, top_k and scale_score of
  \<open>x\<close>, bound to \<open>s'\<close>: to the same store whenever the store's \<^verbatim>\<open>from_dict\<close> inverts its
  \<^verbatim>\<open>to_dict\<close>.
\<close>

theorem from_dict_to_dict:
  fixes registry :: "string \<rightharpoonup> (pyval \<Rightarrow> 'e + 'store)"
  assumes valid: "top_k x = PInt k" "0 < k"
  shows "((store x = None \<or> (\<exists>n. store_name x = Some n \<and> n \<noteq> [])) \<longrightarrow>
            from_dict registry compatible (to_dict store_to_dict ident x)
              = Inr (x\<lparr>store := None, store_name := None\<rparr>))
       \<and> (\<forall>s sd n store_from_dict s'.
            store x = Some s \<and> (store_name x = None \<or> store_name x = Some [])
            \<and> store_to_dict s = PDict sd \<and> map_of sd ''type'' = Some (PStr n)
            \<and> registry n = Some store_from_dict \<and> store_from_dict (PDict sd) = Inr s'
            \<and> compatible s' \<longrightarrow>
            from_dict registry compatible (to_dict store_to_dict ident x)
              = Inr (x\<lparr>store := Some s', store_name := None\<rparr>))"
proof (intro conjI allI impI)
  assume "store x = None \<or> (\<exists>n. store_name x = Some n \<and> n \<noteq> [])"
  then have "map_of (to_dict store_to_dict ident x) ''store'' = Some PNone
           \<or> (\<exists>n. map_of (to_dict store_to_dict ident x) ''store'' = Some (PStr n))"
    unfolding map_of_to_dict(3) by (auto split: option.splits)
  then show "from_dict registry compatible (to_dict store_to_dict ident x)
              = Inr (x\<lparr>store := None, store_name := None\<rparr>)"
    unfolding from_dict_to_dict_unfold [OF valid] by auto
next
  fix s sd n store_from_dict s'
  assume a: "store x = Some s \<and> (store_name x = None \<or> store_name x = Some [])
            \<and> store_to_dict s = PDict sd \<and> map_of sd ''type'' = Some (PStr n)
            \<and> registry n = Some store_from_dict \<and> store_from_dict (PDict sd) = Inr s'
            \<and> compatible s'"
  then have field: "map_of (to_dict store_to_dict ident x) ''store'' = Some (PDict sd)"
    unfolding map_of_to_dict(3) by auto
  from a have look: "registry_lookup registry (PStr n) = Inr store_from_dict"
    by (simp add: registry_lookup_def)
  from a show "from_dict registry compatible (to_dict store_to_dict ident x)
              = Inr (x\<lparr>store := Some s', store_name := None\<rparr>)"
    unfolding from_dict_to_dict_unfold [OF valid] field
    by (simp add: look set_store_def)
qed

theorem from_dict_to_dict_witness:
  "top_k example_retriever = PInt 5 \<and> (0::int) < 5
   \<and> from_dict example_registry (\<lambda>_. True)
        (to_dict example_to_dict 7 (example_retriever\<lparr>store := None\<rparr>))
       = Inr (example_retriever\<lparr>store := None\<rparr>)
   \<and> from_dict example_registry (\<lambda>_. True) (to_dict example_to_dict 7 example_retriever)
       = Inr example_retriever"
proof -
  have k: "top_k example_retriever = PInt 5" by (simp add: example_retriever_def)
  have k': "top_k (example_retriever\<lparr>store := None\<rparr>) = PInt 5" by (simp add: example_retriever_def)
  have pos: "(0::int) < 5" by simp
  from from_dict_to_dict [OF k' pos, of example_registry "\<lambda>_. True" example_to_dict 7]
  have unbound: "from_dict example_registry (\<lambda>_. True)
        (to_dict example_to_dict 7 (example_retriever\<lparr>store := None\<rparr>))
       = Inr (example_retriever\<lparr>store := None\<rparr>)"
    by (simp add: example_retriever_def)
  have "store example_retriever = Some mock_docs
      \<and> (store_name example_retriever = None \<or> store_name example_retriever = Some [])
      \<and> example_to_dict mock_docs
           = PDict [(''type'', PStr ''MemoryDocumentStore''),
                    (''documents'', PDict (map (\<lambda>(i, content). (i, PStr content)) mock_docs))]
      \<and> map_of [(''type'', PStr ''MemoryDocumentStore''),
                 (''documents'', PDict (map (\<lambda>(i, content). (i, PStr content)) mock_docs))] ''type''
           = Some (PStr ''MemoryDocumentStore'')
      \<and> example_registry ''MemoryDocumentStore'' = Some example_from_dict
      \<and> example_from_dict (PDict [(''type'', PStr ''MemoryDocumentStore''),
                    (''documents'', PDict (map (\<lambda>(i, content). (i, PStr content)) mock_docs))])
           = Inr mock_docs
      \<and> (\<lambda>_. True) mock_docs"
    using example_round_trip
    by (simp add: example_retriever_def example_to_dict_def example_registry_def)
  with from_dict_to_dict [OF k pos, of example_registry "\<lambda>_. True" example_to_dict 7]
  have "from_dict example_registry (\<lambda>_. True) (to_dict example_to_dict 7 example_retriever)
       = Inr (example_retriever\<lparr>store := Some mock_docs, store_name := None\<rparr>)"
    by blast
  then have bound: "from_dict example_registry (\<lambda>_. True) (to_dict example_to_dict 7 example_retriever)
       = Inr example_retriever"
    by (simp add: example_retriever_def)
  from k pos unbound bound show ?thesis by blast
qed

text \<open>
  The claim C2 as stated fails: a retriever with a store bound and a deferred name is
  serialised with the name only, and the component that \<^verbatim>\<open>from_dict\<close> returns has no
  store.
\<close>

theorem from_dict_to_dict_counterexample:
  "store (example_retriever\<lparr>store_name := Some ''memory''\<rparr>) = Some mock_docs
   \<and> from_dict example_registry (\<lambda>_. True)
        (to_dict example_to_dict 7 (example_retriever\<lparr>store_name := Some ''memory''\<rparr>))
       = Inr \<lparr>filters = PNone, top_k = PInt 5, scale_score = PBool True,
              store = None, store_name = None\<rparr>
   \<and> store \<lparr>filters = PNone, top_k = PInt 5, scale_score = PBool True,
              store = (None :: example_store option), store_name = None\<rparr> = None"
  by (simp add: from_dict_def to_dict_def init_kwargs_def init_def Let_def example_retriever_def
        cls_name_def)

end
